theory Spec2Isabelle
  imports Main
begin

section \<open>Data model\<close>

text \<open>
  The legacy request of \<^verbatim>\<open>message.go\<close>. A Go slice that may be \<^verbatim>\<open>nil\<close> is an
  \<open>option\<close> (\<open>None\<close> is the nil slice, \<open>Some []\<close> an empty non-nil one); Go's
  \<^verbatim>\<open>int\<close> is an \<open>int\<close>, since the code only compares it. The payload
  \<^verbatim>\<open>map[string]interface{}\<close> holds arbitrary Go values and is kept abstract as \<open>'d\<close>.
\<close>

record Notification =
  Title :: string
  Body :: string
  ClickAction :: string
  Tag :: string

record 'd Message =
  RegistrationIDs :: "string list option"
  CollapseKey :: string
  Notification :: Notification
  Data :: 'd
  DelayWhileIdle :: bool
  TimeToLive :: int
  Priority :: string
  RestrictedPackageName :: string
  DryRun :: bool

text \<open>
  The per-target structures of the v1 API. Field names of Isabelle records are global, so a
  field whose Go name is already taken by the legacy structures carries the suffix \<open>V1\<close>
  (in \<^verbatim>\<open>MessageV1\<close>, \<^verbatim>\<open>NotificationV1\<close>) or \<open>A\<close> (in \<^verbatim>\<open>Android\<close>,
  \<^verbatim>\<open>AndroidNotification\<close>).
\<close>

record NotificationV1 =
  TitleV1 :: string
  BodyV1 :: string

record AndroidNotification =
  ClickActionA :: string
  TagA :: string

record Android =
  NotificationA :: AndroidNotification
  PriorityA :: string

record 'd MessageV1 =
  Token :: string
  CollapseKeyV1 :: string
  NotificationV1 :: NotificationV1
  DataV1 :: 'd
  DelayWhileIdleV1 :: bool
  TimeToLiveV1 :: int
  Android :: Android
  RestrictedPackageNameV1 :: string
  DryRunV1 :: bool

record 'd WrappedMessage =
  MessageW :: "'d MessageV1"

subsection \<open>Constants\<close>

definition FCMSendEndpoint :: string where
  "FCMSendEndpoint = ''https://fcm.googleapis.com/v1/projects/cansukepush/messages:send''"

definition fcmPushPriorityHigh :: string where
  "fcmPushPriorityHigh = ''high''"

definition fcmPushPriorityNormal :: string where
  "fcmPushPriorityNormal = ''normal''"

definition maxRegistrationIDs :: nat where
  "maxRegistrationIDs = 1000"

definition maxTimeToLive :: int where
  "maxTimeToLive = 2419200"

subsection \<open>Errors\<close>

text \<open>
  Go errors are values. Each \<^verbatim>\<open>fmt.Errorf\<close> of the code is a constructor of its own; an
  error that the code hands on unchanged from a library call carries that library's message.
  The six errors of \<^verbatim>\<open>validate\<close> are wrapped in \<open>ValidationError\<close>.
\<close>

datatype verror =
    MessageNil
  | RegistrationIDsNil
  | RegistrationIDsEmpty
  | RegistrationIDsTooMany
  | TimeToLiveOutOfRange
  | PriorityInvalid

datatype error =
    ValidationError verror
  | CredentialsError string
  | TokenError string
  | EncodeError string
  | NewRequestError string
  | DoError string
  | InvalidStatusCode int string
  | DecodeError string

section \<open>Validation\<close>

text \<open>
  \<^verbatim>\<open>func (m *Message) validate() error\<close>: the receiver may be nil, the result \<open>None\<close> is
  Go's nil error.
\<close>

definition validate :: "'d Message option \<Rightarrow> error option" where
  "validate m =
     (case m of
        None \<Rightarrow> Some (ValidationError MessageNil)
      | Some msg \<Rightarrow>
          (case RegistrationIDs msg of
             None \<Rightarrow> Some (ValidationError RegistrationIDsNil)
           | Some ids \<Rightarrow>
               if length ids = 0 then Some (ValidationError RegistrationIDsEmpty)
               else if length ids > maxRegistrationIDs
                 then Some (ValidationError RegistrationIDsTooMany)
               else if TimeToLive msg < 0 \<or> maxTimeToLive < TimeToLive msg
                 then Some (ValidationError TimeToLiveOutOfRange)
               else if Priority msg \<noteq> [] \<and> Priority msg \<noteq> fcmPushPriorityHigh
                       \<and> Priority msg \<noteq> fcmPushPriorityNormal
                 then Some (ValidationError PriorityInvalid)
               else None))"

section \<open>Collaborators\<close>

text \<open>
  What \<^verbatim>\<open>send\<close> calls outside the repository: the credential library, the JSON encoding of
  the payload map, URL parsing inside \<^verbatim>\<open>http.NewRequest\<close>, and the decoding of a response
  body into the repository's \<^verbatim>\<open>Response\<close> (kept abstract as \<open>'r\<close>). A library call yields
  \<open>Inl\<close> of its error message or \<open>Inr\<close> of its value. Only \<^verbatim>\<open>Token()\<close> and
  \<^verbatim>\<open>c.Http.Do\<close> touch the network; each such call is recorded as an event, and the answer
  of the network may depend on all events so far.
\<close>

record Request =
  ReqMethod :: string
  ReqURL :: string
  ReqHeader :: "(string \<times> string) list"
  ReqBody :: string

record HttpResponse =
  StatusCode :: int
  Status :: string
  RespBody :: string

datatype 'c event = TokenFetch 'c | Post Request

record ('c, 'd, 'r) env =
  CredentialsFromJSON :: "string \<Rightarrow> string \<Rightarrow> string + 'c"
  TokenOf :: "'c \<Rightarrow> string + string"
  LenData :: "'d \<Rightarrow> nat"
  MarshalData :: "'d \<Rightarrow> string + string"
  ParseURL :: "string \<Rightarrow> string option"
  DecodeResponse :: "string \<Rightarrow> string + 'r"

text \<open>
  The client of \<^verbatim>\<open>part_000\<close>; its \<^verbatim>\<open>Http\<close> field is the transport, here the function
  that answers a request given the events before it.
\<close>

record 'c Client =
  ApiKey :: string
  URL :: string
  Http :: "'c event list \<Rightarrow> Request \<Rightarrow> string + HttpResponse"

definition StatusOK :: int where
  "StatusOK = 200"

definition messagingScope :: string where
  "messagingScope = ''https://www.googleapis.com/auth/firebase.messaging''"

section \<open>JSON encoding of the wire message\<close>

text \<open>
  \<^verbatim>\<open>encoding/json\<close> on the structures of \<^verbatim>\<open>part_001\<close>, driven by their field tags: the
  members appear in declaration order, a member tagged \<^verbatim>\<open>omitempty\<close> is left out when
  its value is the empty string, \<^verbatim>\<open>false\<close>, \<^verbatim>\<open>0\<close> or a map of length 0, and a member
  of struct type is never left out, whatever its tag. String literals are escaped as the
  encoder does with HTML escaping on (its default); bytes from \<open>0x80\<close> on are copied, which
  is what the encoder does on valid UTF-8 text other than U+2028 and U+2029.
\<close>

definition hex :: string where
  "hex = ''0123456789abcdef''"

definition escapeByte :: "char \<Rightarrow> string" where
  "escapeByte b =
     (if b = CHR 0x5C \<or> b = CHR 0x22 then [CHR 0x5C, b]
      else if b = CHR 0x08 then [CHR 0x5C, CHR ''b'']
      else if b = CHR 0x0C then [CHR 0x5C, CHR ''f'']
      else if b = CHR 0x0A then [CHR 0x5C, CHR ''n'']
      else if b = CHR 0x0D then [CHR 0x5C, CHR ''r'']
      else if b = CHR 0x09 then [CHR 0x5C, CHR ''t'']
      else if (of_char b :: nat) < 0x20 \<or> b = CHR ''<'' \<or> b = CHR ''>'' \<or> b = CHR ''&''
        then [CHR 0x5C, CHR ''u'', CHR ''0'', CHR ''0'',
              hex ! ((of_char b :: nat) div 16), hex ! ((of_char b :: nat) mod 16)]
      else [b])"

definition jsonString :: "string \<Rightarrow> string" where
  "jsonString s = CHR 0x22 # concat (map escapeByte s) @ [CHR 0x22]"

fun showNat :: "nat \<Rightarrow> string" where
  "showNat n =
     (if n < 10 then [''0123456789'' ! n]
      else showNat (n div 10) @ [''0123456789'' ! (n mod 10)])"

definition showInt :: "int \<Rightarrow> string" where
  "showInt i = (if i < 0 then CHR ''-'' # showNat (nat (- i)) else showNat (nat i))"

fun joinComma :: "string list \<Rightarrow> string" where
  "joinComma [] = []"
| "joinComma [x] = x"
| "joinComma (x # y # ys) = x @ '','' @ joinComma (y # ys)"

definition jsonMember :: "string \<Rightarrow> string \<Rightarrow> string" where
  "jsonMember k v = jsonString k @ '':'' @ v"

definition jsonObject :: "string list \<Rightarrow> string" where
  "jsonObject ms = ''{'' @ joinComma ms @ ''}''"

definition encodeNotificationV1 :: "NotificationV1 \<Rightarrow> string" where
  "encodeNotificationV1 n =
     jsonObject [jsonMember ''title'' (jsonString (TitleV1 n)),
                 jsonMember ''body'' (jsonString (BodyV1 n))]"

definition encodeAndroidNotification :: "AndroidNotification \<Rightarrow> string" where
  "encodeAndroidNotification n =
     jsonObject [jsonMember ''click_action'' (jsonString (ClickActionA n)),
                 jsonMember ''tag'' (jsonString (TagA n))]"

definition encodeAndroid :: "Android \<Rightarrow> string" where
  "encodeAndroid a =
     jsonObject
       ([jsonMember ''notification'' (encodeAndroidNotification (NotificationA a))]
        @ (if PriorityA a = [] then []
           else [jsonMember ''priority'' (jsonString (PriorityA a))]))"

definition encodeMessageV1 :: "('c, 'd, 'r) env \<Rightarrow> 'd MessageV1 \<Rightarrow> string + string" where
  "encodeMessageV1 E m =
     (case (if LenData E (DataV1 m) = 0 then Inr []
            else (case MarshalData E (DataV1 m) of
                    Inl e \<Rightarrow> Inl e
                  | Inr j \<Rightarrow> Inr [jsonMember ''data'' j])) of
        Inl e \<Rightarrow> Inl e
      | Inr dataMember \<Rightarrow>
          Inr (jsonObject
            ([jsonMember ''token'' (jsonString (Token m))]
             @ (if CollapseKeyV1 m = [] then []
                else [jsonMember ''collapse_key'' (jsonString (CollapseKeyV1 m))])
             @ [jsonMember ''notification'' (encodeNotificationV1 (NotificationV1 m))]
             @ dataMember
             @ (if DelayWhileIdleV1 m then [jsonMember ''delay_while_idle'' ''true''] else [])
             @ (if TimeToLiveV1 m = 0 then []
                else [jsonMember ''time_to_live'' (showInt (TimeToLiveV1 m))])
             @ [jsonMember ''android'' (encodeAndroid (Android m))]
             @ (if RestrictedPackageNameV1 m = [] then []
                else [jsonMember ''restricted_package_name''
                        (jsonString (RestrictedPackageNameV1 m))])
             @ (if DryRunV1 m then [jsonMember ''dry_run'' ''true''] else []))))"

text \<open>
  \<^verbatim>\<open>json.NewEncoder(&buf).Encode(wrappedMsg)\<close>: the envelope with its one member
  \<^verbatim>\<open>message\<close>, followed by a newline; nothing is written when the encoding fails.
\<close>

definition Encode :: "('c, 'd, 'r) env \<Rightarrow> 'd WrappedMessage \<Rightarrow> string + string" where
  "Encode E w =
     (case encodeMessageV1 E (MessageW w) of
        Inl e \<Rightarrow> Inl e
      | Inr j \<Rightarrow> Inr (jsonObject [jsonMember ''message'' j] @ [CHR 0x0A]))"

section \<open>Token acquisition\<close>

text \<open>
  A Go function returning \<^verbatim>\<open>(*T, error)\<close> returns a pair of options: \<open>None\<close> is
  \<^verbatim>\<open>nil\<close>. \<^verbatim>\<open>getAcsessToken\<close> also yields the events of its network calls.
\<close>

definition getAcsessToken ::
  "('c, 'd, 'r) env \<Rightarrow> string \<Rightarrow> 'c event list \<times> string option \<times> error option" where
  "getAcsessToken E acsJsonData =
     (case CredentialsFromJSON E acsJsonData messagingScope of
        Inl e \<Rightarrow> ([], None, Some (CredentialsError e))
      | Inr creds \<Rightarrow>
          (case TokenOf E creds of
             Inl e \<Rightarrow> ([TokenFetch creds], None, Some (TokenError e))
           | Inr token \<Rightarrow> ([TokenFetch creds], Some token, None)))"

section \<open>The delivery loop\<close>

text \<open>
  What a call of \<^verbatim>\<open>Send\<close> or \<^verbatim>\<open>send\<close> does: it returns Go's pair of a result pointer
  and an error, or it panics (a nil dereference, an index out of range).
\<close>

datatype 'r ret = Return "'r option" "error option" | Panic

text \<open>The wire message that the loop body builds for one registration ID (lines 94 to 107).\<close>

definition messageV1 :: "'d Message \<Rightarrow> string \<Rightarrow> 'd MessageV1" where
  "messageV1 msg token =
     \<lparr>Token = token,
      CollapseKeyV1 = CollapseKey msg,
      NotificationV1 =
        \<lparr>TitleV1 = Title (Notification msg), BodyV1 = Body (Notification msg)\<rparr>,
      DataV1 = Data msg,
      DelayWhileIdleV1 = DelayWhileIdle msg,
      TimeToLiveV1 = TimeToLive msg,
      Android =
        \<lparr>NotificationA =
           \<lparr>ClickActionA = ClickAction (Notification msg), TagA = Tag (Notification msg)\<rparr>,
         PriorityA = Priority msg\<rparr>,
      RestrictedPackageNameV1 = RestrictedPackageName msg,
      DryRunV1 = DryRun msg\<rparr>"

text \<open>
  \<^verbatim>\<open>http.NewRequest("POST", c.URL, &buf)\<close> with the two headers added. The request body is
  the buffer, which the transport reads when it sends the request.
\<close>

definition newRequest :: "'c Client \<Rightarrow> string \<Rightarrow> string \<Rightarrow> Request" where
  "newRequest c acsToken body =
     \<lparr>ReqMethod = ''POST'', ReqURL = URL c,
      ReqHeader = [(''Authorization'', ''Bearer '' @ acsToken),
                   (''Content-Type'', ''application/json'')],
      ReqBody = body\<rparr>"

text \<open>
  The \<^verbatim>\<open>for ... range msg.RegistrationIDs\<close> loop, over the registration IDs still to
  visit. Its state is the buffer \<^verbatim>\<open>buf\<close> (declared before the loop, so it lives across
  iterations), the slice \<^verbatim>\<open>responses\<close> and the events so far. \<open>Inl\<close> is a
  \<^verbatim>\<open>return\<close> from inside the body, \<open>Inr\<close> the slice after the last iteration. The
  transport sends the whole request body, which leaves the buffer empty when
  \<^verbatim>\<open>Do\<close> has answered. \<^verbatim>\<open>*acsToken\<close> panics on a nil pointer.
\<close>

fun send_loop ::
  "('c, 'd, 'r) env \<Rightarrow> 'c Client \<Rightarrow> 'd Message \<Rightarrow> string option \<Rightarrow> string list
     \<Rightarrow> string \<Rightarrow> 'r list \<Rightarrow> 'c event list \<Rightarrow> 'c event list \<times> ('r ret + 'r list)" where
  "send_loop E c msg acsToken [] buf responses tr = (tr, Inr responses)"
| "send_loop E c msg acsToken (token # rest) buf responses tr =
     (case Encode E \<lparr>MessageW = messageV1 msg token\<rparr> of
        Inl e \<Rightarrow> (tr, Inl (Return None (Some (EncodeError e))))
      | Inr js \<Rightarrow>
          (case ParseURL E (URL c) of
             Some e \<Rightarrow> (tr, Inl (Return None (Some (NewRequestError e))))
           | None \<Rightarrow>
               (case acsToken of
                  None \<Rightarrow> (tr, Inl Panic)
                | Some tok \<Rightarrow>
                    (case Http c tr (newRequest c tok (buf @ js)) of
                       Inl e \<Rightarrow>
                         (tr @ [Post (newRequest c tok (buf @ js))],
                          Inl (Return None (Some (DoError e))))
                     | Inr resp \<Rightarrow>
                         if StatusCode resp \<noteq> StatusOK
                         then (tr @ [Post (newRequest c tok (buf @ js))],
                               Inl (Return None
                                 (Some (InvalidStatusCode (StatusCode resp) (Status resp)))))
                         else
                           (case DecodeResponse E (RespBody resp) of
                              Inl e \<Rightarrow>
                                (tr @ [Post (newRequest c tok (buf @ js))],
                                 Inl (Return None (Some (DecodeError e))))
                            | Inr response \<Rightarrow>
                                send_loop E c msg acsToken rest []
                                  (responses @ [response])
                                  (tr @ [Post (newRequest c tok (buf @ js))]))))))"

text \<open>
  \<^verbatim>\<open>send\<close>: the token is fetched once, then the loop runs; after the loop the code
  returns \<^verbatim>\<open>&responses[0]\<close> with the variable \<^verbatim>\<open>err\<close> of the token fetch (the
  \<^verbatim>\<open>err\<close> of the loop body are new variables of its block). Indexing an empty slice
  panics. The receiver \<^verbatim>\<open>msg\<close> is not nil here; ranging over a nil slice visits nothing.
\<close>

definition send ::
  "('c, 'd, 'r) env \<Rightarrow> 'c Client \<Rightarrow> 'd Message \<Rightarrow> string \<Rightarrow> 'c event list \<times> 'r ret" where
  "send E c msg acsJsonData =
     (case getAcsessToken E acsJsonData of
        (tr, acsToken, err) \<Rightarrow>
          if err \<noteq> None then (tr, Return None err)
          else
            (case send_loop E c msg acsToken
                    (case RegistrationIDs msg of None \<Rightarrow> [] | Some ids \<Rightarrow> ids) [] [] tr of
               (tr', Inl r) \<Rightarrow> (tr', r)
             | (tr', Inr responses) \<Rightarrow>
                 (case responses of
                    [] \<Rightarrow> (tr', Panic)
                  | response # _ \<Rightarrow> (tr', Return (Some response) err))))"

text \<open>\<^verbatim>\<open>Send\<close>: validation first; \<^verbatim>\<open>send\<close> only for a message that passed it.\<close>

definition Send ::
  "('c, 'd, 'r) env \<Rightarrow> 'c Client \<Rightarrow> 'd Message option \<Rightarrow> string
     \<Rightarrow> 'c event list \<times> 'r ret" where
  "Send E c msg acsJsonData =
     (case validate msg of
        Some err \<Rightarrow> ([], Return None (Some err))
      | None \<Rightarrow>
          (case msg of
             None \<Rightarrow> ([], Panic)
           | Some m \<Rightarrow> send E c m acsJsonData))"

text \<open>The requests among the events, in the order they were issued.\<close>

fun posts :: "'c event list \<Rightarrow> Request list" where
  "posts [] = []"
| "posts (TokenFetch _ # tr) = posts tr"
| "posts (Post rq # tr) = rq # posts tr"

section \<open>The validation rules as the specification words them\<close>

text \<open>
  The six rules of the specification, each a predicate on the message reference, in the
  order the specification lists them, with the error of each; \<open>spec_validate\<close> is "checked
  in order, first failure wins". These definitions follow the specification, not the code:
  \<open>validate\<close> above is compared with them. A rule about a field is taken to fail on a
  null message.
\<close>

definition rule_message :: "'d Message option \<Rightarrow> bool" where
  "rule_message m = (m \<noteq> None)"

definition rule_targets_present :: "'d Message option \<Rightarrow> bool" where
  "rule_targets_present m =
     (case m of None \<Rightarrow> False | Some msg \<Rightarrow> RegistrationIDs msg \<noteq> None)"

definition rule_targets_nonempty :: "'d Message option \<Rightarrow> bool" where
  "rule_targets_nonempty m =
     (case m of None \<Rightarrow> False
      | Some msg \<Rightarrow> (case RegistrationIDs msg of None \<Rightarrow> False | Some ids \<Rightarrow> ids \<noteq> []))"

definition rule_targets_bound :: "'d Message option \<Rightarrow> bool" where
  "rule_targets_bound m =
     (case m of None \<Rightarrow> False
      | Some msg \<Rightarrow>
          (case RegistrationIDs msg of None \<Rightarrow> False | Some ids \<Rightarrow> length ids \<le> 1000))"

definition rule_timeToLive :: "'d Message option \<Rightarrow> bool" where
  "rule_timeToLive m =
     (case m of None \<Rightarrow> False
      | Some msg \<Rightarrow> 0 \<le> TimeToLive msg \<and> TimeToLive msg \<le> 2419200)"

definition rule_priority :: "'d Message option \<Rightarrow> bool" where
  "rule_priority m =
     (case m of None \<Rightarrow> False
      | Some msg \<Rightarrow> Priority msg = [] \<or> Priority msg = ''high'' \<or> Priority msg = ''normal'')"

definition spec_rules :: "(('d Message option \<Rightarrow> bool) \<times> verror) list" where
  "spec_rules =
     [(rule_message, MessageNil),
      (rule_targets_present, RegistrationIDsNil),
      (rule_targets_nonempty, RegistrationIDsEmpty),
      (rule_targets_bound, RegistrationIDsTooMany),
      (rule_timeToLive, TimeToLiveOutOfRange),
      (rule_priority, PriorityInvalid)]"

fun first_failure :: "(('a \<Rightarrow> bool) \<times> verror) list \<Rightarrow> 'a \<Rightarrow> verror option" where
  "first_failure [] x = None"
| "first_failure ((p, e) # rs) x = (if p x then first_failure rs x else Some e)"

definition spec_validate :: "'d Message option \<Rightarrow> error option" where
  "spec_validate m = map_option ValidationError (first_failure spec_rules m)"

section \<open>Concrete inputs\<close>

text \<open>
  A message, an environment and a transport on which the functions above are evaluated. The
  transport answers 500 to the request issued after \<open>k\<close> events and 200 to every other.
\<close>

definition scenarioMessage :: "'d \<Rightarrow> 'd Message" where
  "scenarioMessage d =
     \<lparr>RegistrationIDs = Some [''tok1''], CollapseKey = [],
      Notification = \<lparr>Title = ''Hi'', Body = ''there'', ClickAction = [], Tag = []\<rparr>,
      Data = d, DelayWhileIdle = False, TimeToLive = 0, Priority = ''high'',
      RestrictedPackageName = [], DryRun = False\<rparr>"

definition scenarioBody :: string where
  \<open>scenarioBody = ''{"message":{"token":"tok1","notification":{"title":"Hi","body":"there"},"android":{"notification":{"click_action":"","tag":""},"priority":"high"}}}'' @ [CHR 0x0A]\<close>

definition claimedBody :: string where
  \<open>claimedBody = ''{"message":{"token":"tok1","notification":{"title":"Hi","body":"there"},"android":{"notification":{},"priority":"high"}}}''\<close>

definition demoEnv :: "(string, (string \<times> string) list, string) env" where
  "demoEnv =
     \<lparr>CredentialsFromJSON =
        (\<lambda>j scope. if j = [] then Inl ''unexpected end of JSON input'' else Inr j),
      TokenOf = (\<lambda>cr. if cr = ''revoked'' then Inl ''invalid_grant'' else Inr (''ya29.'' @ cr)),
      LenData = length,
      MarshalData = (\<lambda>d. Inr (jsonObject (map (\<lambda>(k, v). jsonMember k (jsonString v)) d))),
      ParseURL = (\<lambda>u. None),
      DecodeResponse = (\<lambda>b. if b = [] then Inl ''EOF'' else Inr b)\<rparr>"

definition demoHttp :: "nat \<Rightarrow> string event list \<Rightarrow> Request \<Rightarrow> string + HttpResponse" where
  \<open>demoHttp k h rq =
     (if length h = k
      then Inr \<lparr>StatusCode = 500, Status = ''500 Internal Server Error'', RespBody = []\<rparr>
      else Inr \<lparr>StatusCode = 200, Status = ''200 OK'',
                RespBody = ''{"name":"projects/x/messages/'' @ showNat (length h) @ ''"}''\<rparr>)\<close>

definition demoClient :: "nat \<Rightarrow> string Client" where
  "demoClient k = \<lparr>ApiKey = ''key'', URL = FCMSendEndpoint, Http = demoHttp k\<rparr>"

definition demoMessage :: "string list \<Rightarrow> (string \<times> string) list Message" where
  "demoMessage ids = (scenarioMessage []) \<lparr>RegistrationIDs := Some ids\<rparr>"

text \<open>
  The request body for target \<open>t\<close> of \<open>demoMessage\<close> (for a target that needs no
  escaping), and the response body that the transport gives the request after \<open>n\<close> events.
\<close>

definition demoBody :: "string \<Rightarrow> string" where
  \<open>demoBody t = ''{"message":{"token":"'' @ t @ ''","notification":{"title":"Hi","body":"there"},"android":{"notification":{"click_action":"","tag":""},"priority":"high"}}}'' @ [CHR 0x0A]\<close>

definition nameBody :: "string \<Rightarrow> string" where
  \<open>nameBody n = ''{"name":"projects/x/messages/'' @ n @ ''"}''\<close>

section \<open>Facts about the delivery loop\<close>

lemma send_loop_extends:
  "\<exists>ext. fst (send_loop E c msg tok ids buf rs tr) = tr @ ext"
proof (induction ids arbitrary: buf rs tr)
  case Nil
  show ?case by simp
next
  case (Cons t ids)
  show ?case
    using Cons.IH
    apply (simp split: sum.splits option.splits if_splits)
    apply (metis append.assoc)
    done
qed





lemma send_loop_abort:
  assumes "send_loop E c msg tok ids buf rs tr = (tr', out)"
    and "length tr \<le> i" and "i < length tr'" and "tr' ! i = Post rq"
    and "Http c (take i tr') rq = Inr resp" and "StatusCode resp \<noteq> StatusOK"
  shows "Suc i = length tr' \<and>
         out = Inl (Return None (Some (InvalidStatusCode (StatusCode resp) (Status resp))))"
  using assms
proof (induction ids arbitrary: buf rs tr)
  case Nil
  then show ?case by simp
next
  case (Cons t ids)
  show ?case
  proof (cases "\<exists>js tk resp0 r. Encode E \<lparr>MessageW = messageV1 msg t\<rparr> = Inr js \<and>
      ParseURL E (URL c) = None \<and> tok = Some tk \<and>
      Http c tr (newRequest c tk (buf @ js)) = Inr resp0 \<and>
      StatusCode resp0 = StatusOK \<and> DecodeResponse E (RespBody resp0) = Inr r")
    case True
    then obtain js tk resp0 r where
      s: "Encode E \<lparr>MessageW = messageV1 msg t\<rparr> = Inr js" "ParseURL E (URL c) = None"
         "tok = Some tk" "Http c tr (newRequest c tk (buf @ js)) = Inr resp0"
         "StatusCode resp0 = StatusOK" "DecodeResponse E (RespBody resp0) = Inr r"
      by blast
    let ?rq = "newRequest c tk (buf @ js)"
    have rest: "send_loop E c msg tok ids [] (rs @ [r]) (tr @ [Post ?rq]) = (tr', out)"
      using Cons.prems(1) s by simp
    from send_loop_extends [of E c msg tok ids "[]" "rs @ [r]" "tr @ [Post ?rq]"] rest
    obtain ext where ext: "tr' = tr @ [Post ?rq] @ ext" by auto
    show ?thesis
    proof (cases "i = length tr")
      case True
      have "tr' ! i = Post ?rq" using ext True by (simp add: nth_append)
      moreover have "take i tr' = tr" using ext True by simp
      ultimately have "Inr resp = Inr resp0"
        using Cons.prems(4,5) s(4) by simp
      then show ?thesis using Cons.prems(6) s(5) by simp
    next
      case False
      then have "length (tr @ [Post ?rq]) \<le> i" using Cons.prems(2) by simp
      from Cons.IH [OF rest this Cons.prems(3,4,5,6)] show ?thesis .
    qed
  next
    case False
    then show ?thesis
      using Cons.prems
      by (auto split: sum.splits option.splits if_splits simp: nth_append)
  qed
qed

lemma posts_append: "posts (tr @ tr') = posts tr @ posts tr'"
  by (induction tr rule: posts.induct) simp_all

lemma posts_map_Post: "posts (map (\<lambda>b. Post (f b)) bs) = map f bs"
  by (induction bs) simp_all

lemma send_loop_posts_prefix:
  "send_loop E c msg (Some tk) ids [] rs tr = (tr', out) \<Longrightarrow>
     \<exists>bodies. tr' = tr @ map (\<lambda>b. Post (newRequest c tk b)) bodies \<and>
       length bodies \<le> length ids \<and>
       map Inr bodies =
         map (\<lambda>t. Encode E \<lparr>MessageW = messageV1 msg t\<rparr>) (take (length bodies) ids)"
proof (induction ids arbitrary: rs tr)
  case Nil
  then show ?case by simp
next
  case (Cons t ids)
  let ?P = "\<lambda>bodies. tr' = tr @ map (\<lambda>b. Post (newRequest c tk b)) bodies \<and>
       length bodies \<le> length (t # ids) \<and>
       map Inr bodies =
         map (\<lambda>t. Encode E \<lparr>MessageW = messageV1 msg t\<rparr>) (take (length bodies) (t # ids))"
  show ?case
  proof (cases "Encode E \<lparr>MessageW = messageV1 msg t\<rparr>")
    case (Inl e)
    with Cons.prems have "?P []" by simp
    then show ?thesis by blast
  next
    case (Inr js)
    show ?thesis
    proof (cases "ParseURL E (URL c)")
      case (Some e)
      with Inr Cons.prems have "?P []" by simp
      then show ?thesis by blast
    next
      case None
      show ?thesis
      proof (cases "\<exists>resp r. Http c tr (newRequest c tk js) = Inr resp \<and>
          StatusCode resp = StatusOK \<and> DecodeResponse E (RespBody resp) = Inr r")
        case True
        then obtain resp r where
          s: "Http c tr (newRequest c tk js) = Inr resp" "StatusCode resp = StatusOK"
             "DecodeResponse E (RespBody resp) = Inr r"
          by blast
        have rest: "send_loop E c msg (Some tk) ids [] (rs @ [r])
            (tr @ [Post (newRequest c tk js)]) = (tr', out)"
          using Cons.prems Inr None s by simp
        from Cons.IH [OF rest] obtain bodies where
          b: "tr' = (tr @ [Post (newRequest c tk js)]) @ map (\<lambda>b. Post (newRequest c tk b)) bodies"
             "length bodies \<le> length ids"
             "map Inr bodies =
                map (\<lambda>t. Encode E \<lparr>MessageW = messageV1 msg t\<rparr>) (take (length bodies) ids)"
          by blast
        have "?P (js # bodies)" using b Inr by simp
        then show ?thesis by blast
      next
        case False
        with Inr None Cons.prems have "?P [js]"
          by (auto split: sum.splits if_splits)
        then show ?thesis by blast
      qed
    qed
  qed
qed

lemma Send_cases:
  assumes "Send E c msg a = (tr, out)"
  shows "(\<exists>v. validate msg = Some (ValidationError v) \<and> tr = [] \<and>
            out = Return None (Some (ValidationError v)))
       \<or> (\<exists>m e. msg = Some m \<and> validate msg = None \<and>
            CredentialsFromJSON E a messagingScope = Inl e \<and> tr = [] \<and>
            out = Return None (Some (CredentialsError e)))
       \<or> (\<exists>m cr e. msg = Some m \<and> validate msg = None \<and>
            CredentialsFromJSON E a messagingScope = Inr cr \<and> TokenOf E cr = Inl e \<and>
            tr = [TokenFetch cr] \<and> out = Return None (Some (TokenError e)))
       \<or> (\<exists>m cr tk ids lo. msg = Some m \<and> validate msg = None \<and>
            RegistrationIDs m = Some ids \<and> ids \<noteq> [] \<and>
            CredentialsFromJSON E a messagingScope = Inr cr \<and> TokenOf E cr = Inr tk \<and>
            send_loop E c m (Some tk) ids [] [] [TokenFetch cr] = (tr, lo) \<and>
            out = (case lo of Inl r \<Rightarrow> r
                   | Inr rs \<Rightarrow> (case rs of [] \<Rightarrow> Panic | r # _ \<Rightarrow> Return (Some r) None)))"
proof (cases "validate msg")
  case (Some err)
  then obtain v where "err = ValidationError v"
    by (auto simp: validate_def split: option.splits if_splits)
  with Some assms show ?thesis by (simp add: Send_def)
next
  case None
  then obtain m ids where m: "msg = Some m" "RegistrationIDs m = Some ids" "ids \<noteq> []"
    by (auto simp: validate_def split: option.splits if_splits)
  have s: "send E c m a = (tr, out)" using assms None m by (simp add: Send_def)
  show ?thesis
  proof (cases "CredentialsFromJSON E a messagingScope")
    case (Inl e)
    with s None m show ?thesis by (simp add: send_def getAcsessToken_def)
  next
    case (Inr cr)
    show ?thesis
    proof (cases "TokenOf E cr")
      case (Inl e)
      with s None m Inr show ?thesis by (simp add: send_def getAcsessToken_def)
    next
      case tk: (Inr tk)
      obtain tr' lo where lo: "send_loop E c m (Some tk) ids [] [] [TokenFetch cr] = (tr', lo)"
        by (cases "send_loop E c m (Some tk) ids [] [] [TokenFetch cr]") blast
      with s m Inr tk have "tr' = tr \<and>
          out = (case lo of Inl r \<Rightarrow> r
                 | Inr rs \<Rightarrow> (case rs of [] \<Rightarrow> Panic | r # _ \<Rightarrow> Return (Some r) None))"
        by (auto simp: send_def getAcsessToken_def split: sum.splits list.splits)
      with lo None m Inr tk show ?thesis by blast
    qed
  qed
qed

text \<open>
  \<^verbatim>\<open>send\<close> itself, called on a message without targets, runs the loop zero times and
  then indexes the empty slice: it is the validation in \<^verbatim>\<open>Send\<close> that keeps
  \<^verbatim>\<open>responses[0]\<close> in bounds.
\<close>

lemma send_without_targets_panics:
  assumes "RegistrationIDs m = None \<or> RegistrationIDs m = Some []"
    and "CredentialsFromJSON E a messagingScope = Inr cr" and "TokenOf E cr = Inr tk"
  shows "send E c m a = ([TokenFetch cr], Panic)"
  using assms by (auto simp: send_def getAcsessToken_def)


text \<open>
  C7: \<^verbatim>\<open>validate\<close> checks the six rules in their fixed order (message not null, targets
  not null, targets not empty, at most 1000 targets, time to live in range, priority allowed)
  and returns the error of the first rule that fails; it returns no error exactly when all six
  rules hold. It is a function of the message alone.
\<close>

theorem validate_first_failure:
  "validate m = spec_validate m \<and>
   (validate m = None \<longleftrightarrow>
      rule_message m \<and> rule_targets_present m \<and> rule_targets_nonempty m \<and>
      rule_targets_bound m \<and> rule_timeToLive m \<and> rule_priority m)"
  by (auto simp: validate_def spec_validate_def spec_rules_def rule_message_def
      rule_targets_present_def rule_targets_nonempty_def rule_targets_bound_def
      rule_timeToLive_def rule_priority_def maxRegistrationIDs_def maxTimeToLive_def
      fcmPushPriorityHigh_def fcmPushPriorityNormal_def split: option.splits)

lemma validate_is_ValidationError:
  "validate m = Some err \<Longrightarrow> \<exists>v. err = ValidationError v"
  by (auto simp: validate_def split: option.splits if_splits)

text \<open>
  C8: a time to live below 0 or above 2419200, and a priority other than the empty string,
  \<^verbatim>\<open>high\<close> or \<^verbatim>\<open>normal\<close> (compared exactly), make \<^verbatim>\<open>validate\<close> and \<^verbatim>\<open>Send\<close> return a
  validation error; the boundary values 0 and 2419200 are accepted.
\<close>

theorem validate_timeToLive_priority:
  "((TimeToLive msg < 0 \<or> 2419200 < TimeToLive msg
       \<or> Priority msg \<notin> {[], ''high'', ''normal''}) \<longrightarrow>
      (\<exists>v. validate (Some msg) = Some (ValidationError v) \<and>
           Send E c (Some msg) a = ([], Return None (Some (ValidationError v))))) \<and>
   ((RegistrationIDs msg = Some ids \<and> ids \<noteq> [] \<and> length ids \<le> 1000 \<and>
     Priority msg \<in> {[], ''high'', ''normal''} \<and> TimeToLive msg \<in> {0, 2419200}) \<longrightarrow>
      validate (Some msg) = None)"
  by (auto simp: validate_def Send_def maxRegistrationIDs_def maxTimeToLive_def
      fcmPushPriorityHigh_def fcmPushPriorityNormal_def split: option.splits)

text \<open>
  C5: a message that fails validation, in particular a nil message and one whose targets are
  nil or empty, makes \<^verbatim>\<open>Send\<close> return the validation error with no event at all: no token
  is fetched and no request is posted.
\<close>

theorem Send_invalid_no_network:
  "(validate msg \<noteq> None \<longrightarrow>
      (\<exists>v. Send E c msg a = ([], Return None (Some (ValidationError v))))) \<and>
   validate (None :: 'd Message option) \<noteq> None \<and>
   ((RegistrationIDs m = None \<or> RegistrationIDs m = Some []) \<longrightarrow> validate (Some m) \<noteq> None)"
  by (auto simp: Send_def validate_def split: option.splits dest: )

lemma ReqBody_newRequest: "ReqBody (newRequest c tk b) = b"
  by (simp add: newRequest_def)


lemma bodies_of_requests:
  "map (\<lambda>rq. Inr (ReqBody rq)) (map (newRequest c tk) bodies) = map Inr bodies"
  by (simp add: ReqBody_newRequest)


text \<open>
  C3: when a request of \<^verbatim>\<open>Send\<close> is answered with a status other than 200, that request is
  the last event of the call, the call returns a nil result with the status error, and the
  requests issued are those of the leading targets up to the failing one.
\<close>

theorem Send_aborts_on_bad_status:
  assumes "Send E c msg a = (tr, out)"
    and "i < length tr" and "tr ! i = Post rq"
    and "Http c (take i tr) rq = Inr resp" and "StatusCode resp \<noteq> 200"
  shows "Suc i = length tr \<and>
         out = Return None (Some (InvalidStatusCode (StatusCode resp) (Status resp))) \<and>
         (\<exists>m ids. msg = Some m \<and> RegistrationIDs m = Some ids \<and>
            length (posts tr) \<le> length ids \<and>
            map (\<lambda>rq. Inr (ReqBody rq)) (posts tr) =
              map (\<lambda>t. Encode E \<lparr>MessageW = messageV1 m t\<rparr>) (take (length (posts tr)) ids))"
  using Send_cases [OF assms(1)]
proof (elim disjE exE conjE)
  fix m cr tk ids lo
  assume h: "msg = Some m" "RegistrationIDs m = Some ids"
    "send_loop E c m (Some tk) ids [] [] [TokenFetch cr] = (tr, lo)"
    "out = (case lo of Inl r \<Rightarrow> r
            | Inr rs \<Rightarrow> (case rs of [] \<Rightarrow> Panic | r # _ \<Rightarrow> Return (Some r) None))"
  from send_loop_posts_prefix [OF h(3)] obtain bodies where
    b: "tr = [TokenFetch cr] @ map (\<lambda>b. Post (newRequest c tk b)) bodies"
       "length bodies \<le> length ids"
       "map Inr bodies =
          map (\<lambda>t. Encode E \<lparr>MessageW = messageV1 m t\<rparr>) (take (length bodies) ids)"
    by blast
  have p: "posts tr = map (newRequest c tk) bodies"
    using b(1) by (simp add: posts_map_Post)
  have "i \<noteq> 0" using assms(3) b(1) by (cases i) auto
  then have i: "length [TokenFetch cr] \<le> i" by simp
  have ns: "StatusCode resp \<noteq> StatusOK" using assms(5) by (simp add: StatusOK_def)
  from send_loop_abort [OF h(3) i assms(2,3,4) ns]
  have a: "Suc i = length tr"
    "lo = Inl (Return None (Some (InvalidStatusCode (StatusCode resp) (Status resp))))"
    by simp_all
  have o: "out = Return None (Some (InvalidStatusCode (StatusCode resp) (Status resp)))"
    using a(2) h(4) by simp
  have l: "length (posts tr) = length bodies" using p by simp
  have q: "map (\<lambda>rq. Inr (ReqBody rq)) (posts tr) = map Inr bodies"
    unfolding p by (rule bodies_of_requests)
  have "length (posts tr) \<le> length ids \<and>
        map (\<lambda>rq. Inr (ReqBody rq)) (posts tr) =
          map (\<lambda>t. Encode E \<lparr>MessageW = messageV1 m t\<rparr>) (take (length (posts tr)) ids)"
    unfolding q l using b(2,3) by simp
  with a(1) o h(1,2) show ?thesis by blast
qed (use assms(2,3) in auto)


text \<open>
  C6: for a message that passed validation, when the token fetch returns an error,
  \<^verbatim>\<open>Send\<close> returns that error, which is a credentials or a token error, and posts no
  request.
\<close>

theorem Send_auth_failure_no_post:
  assumes "validate (Some m) = None" and "snd (snd (getAcsessToken E a)) = Some err"
  shows "snd (Send E c (Some m) a) = Return None (Some err) \<and>
         posts (fst (Send E c (Some m) a)) = [] \<and>
         ((\<exists>e. err = CredentialsError e) \<or> (\<exists>e. err = TokenError e))"
  using assms
  by (auto simp: Send_def send_def getAcsessToken_def split: sum.splits)

text \<open>
  C9: the top-level notification of the wire message holds the title and the body and nothing
  else, the click action and the tag go to the android block together with the priority, and
  the top-level notification does not depend on click action and tag.
\<close>

theorem messageV1_notification_split:
  "NotificationV1 (messageV1 m t) =
     \<lparr>TitleV1 = Title (Notification m), BodyV1 = Body (Notification m)\<rparr> \<and>
   Android (messageV1 m t) =
     \<lparr>NotificationA =
        \<lparr>ClickActionA = ClickAction (Notification m), TagA = Tag (Notification m)\<rparr>,
      PriorityA = Priority m\<rparr> \<and>
   NotificationV1 (messageV1 (m\<lparr>Notification := (Notification m)\<lparr>ClickAction := ca, Tag := tg\<rparr>\<rparr>) t) =
     NotificationV1 (messageV1 m t) \<and>
   encodeNotificationV1 (NotificationV1 (messageV1 m t)) =
     jsonObject [jsonMember ''title'' (jsonString (Title (Notification m))),
                 jsonMember ''body'' (jsonString (Body (Notification m)))]"
  by (simp add: messageV1_def encodeNotificationV1_def)

section \<open>The claims at concrete inputs\<close>

theorem validate_timeToLive_priority_witness:
  "(\<exists>v. Send demoEnv (demoClient 0) (Some ((demoMessage [''A''])\<lparr>TimeToLive := - 1\<rparr>)) ''creds''
          = ([], Return None (Some (ValidationError v)))) \<and>
   (\<exists>v. Send demoEnv (demoClient 0) (Some ((demoMessage [''A''])\<lparr>TimeToLive := 2419201\<rparr>)) ''creds''
          = ([], Return None (Some (ValidationError v)))) \<and>
   (\<exists>v. Send demoEnv (demoClient 0) (Some ((demoMessage [''A''])\<lparr>Priority := ''High''\<rparr>)) ''creds''
          = ([], Return None (Some (ValidationError v)))) \<and>
   validate (Some ((demoMessage [''A''])\<lparr>TimeToLive := 0\<rparr>)) = None \<and>
   validate (Some ((demoMessage [''A''])\<lparr>TimeToLive := 2419200\<rparr>)) = None"
proof -
  let ?m = "demoMessage [''A'']"
  have 1: "TimeToLive (?m\<lparr>TimeToLive := - 1\<rparr>) < 0" by simp
  have 2: "2419200 < TimeToLive (?m\<lparr>TimeToLive := 2419201\<rparr>)" by simp
  have 3: "Priority (?m\<lparr>Priority := ''High''\<rparr>) \<notin> {[], ''high'', ''normal''}" by simp
  have 4: "RegistrationIDs (?m\<lparr>TimeToLive := 0\<rparr>) = Some [''A''] \<and> [''A''] \<noteq> [] \<and>
      length [''A''] \<le> 1000 \<and> Priority (?m\<lparr>TimeToLive := 0\<rparr>) \<in> {[], ''high'', ''normal''} \<and>
      TimeToLive (?m\<lparr>TimeToLive := 0\<rparr>) \<in> {0, 2419200}"
    by (simp add: demoMessage_def scenarioMessage_def)
  have 5: "RegistrationIDs (?m\<lparr>TimeToLive := 2419200\<rparr>) = Some [''A''] \<and> [''A''] \<noteq> [] \<and>
      length [''A''] \<le> 1000 \<and>
      Priority (?m\<lparr>TimeToLive := 2419200\<rparr>) \<in> {[], ''high'', ''normal''} \<and>
      TimeToLive (?m\<lparr>TimeToLive := 2419200\<rparr>) \<in> {0, 2419200}"
    by (simp add: demoMessage_def scenarioMessage_def)
  note t = validate_timeToLive_priority [where E = demoEnv and c = "demoClient 0"
      and a = "''creds''" and ids = "[''A'']"]
  note bad = t [THEN conjunct1, THEN mp, THEN exE]
  note good = t [THEN conjunct2, THEN mp]
  have b1: "\<exists>v. Send demoEnv (demoClient 0) (Some (?m\<lparr>TimeToLive := - 1\<rparr>)) ''creds''
          = ([], Return None (Some (ValidationError v)))"
    by (rule bad [OF disjI1 [OF 1]]) (rule exI, erule conjunct2)
  have b2: "\<exists>v. Send demoEnv (demoClient 0) (Some (?m\<lparr>TimeToLive := 2419201\<rparr>)) ''creds''
          = ([], Return None (Some (ValidationError v)))"
    by (rule bad [OF disjI2 [OF disjI1 [OF 2]]]) (rule exI, erule conjunct2)
  have b3: "\<exists>v. Send demoEnv (demoClient 0) (Some (?m\<lparr>Priority := ''High''\<rparr>)) ''creds''
          = ([], Return None (Some (ValidationError v)))"
    by (rule bad [OF disjI2 [OF disjI2 [OF 3]]]) (rule exI, erule conjunct2)
  from b1 b2 b3 good [OF 4] good [OF 5] show ?thesis
    by (intro conjI)
qed

theorem Send_invalid_no_network_witness:
  "(\<exists>v. Send demoEnv (demoClient 0) None ''creds'' = ([], Return None (Some (ValidationError v)))) \<and>
   (\<exists>v. Send demoEnv (demoClient 0) (Some (demoMessage [])) ''creds''
          = ([], Return None (Some (ValidationError v)))) \<and>
   (\<exists>v. Send demoEnv (demoClient 0) (Some ((demoMessage [])\<lparr>RegistrationIDs := None\<rparr>)) ''creds''
          = ([], Return None (Some (ValidationError v))))"
proof -
  have 1: "RegistrationIDs (demoMessage []) = Some []"
    by (simp add: demoMessage_def)
  have 2: "RegistrationIDs ((demoMessage [])\<lparr>RegistrationIDs := None\<rparr>) = None"
    by simp
  note t = Send_invalid_no_network [where E = demoEnv and c = "demoClient 0" and a = "''creds''"]
  note refused = t [THEN conjunct1, THEN mp]
  note nil_msg = t [THEN conjunct2, THEN conjunct1]
  note no_targets = t [THEN conjunct2, THEN conjunct2, THEN mp]
  have a: "\<exists>v. Send demoEnv (demoClient 0) None ''creds''
      = ([], Return None (Some (ValidationError v)))"
    by (rule refused [OF nil_msg])
  have b: "\<exists>v. Send demoEnv (demoClient 0) (Some (demoMessage [])) ''creds''
      = ([], Return None (Some (ValidationError v)))"
    by (rule refused [OF no_targets [OF disjI2 [OF 1]]])
  have c: "\<exists>v. Send demoEnv (demoClient 0)
      (Some ((demoMessage [])\<lparr>RegistrationIDs := None\<rparr>)) ''creds''
      = ([], Return None (Some (ValidationError v)))"
    by (rule refused [OF no_targets [OF disjI1 [OF 2]]])
  from a b c show ?thesis by (intro conjI)
qed

theorem Send_auth_failure_no_post_witness:
  "snd (Send demoEnv (demoClient 0) (Some (demoMessage [''A''])) [])
     = Return None (Some (CredentialsError ''unexpected end of JSON input'')) \<and>
   posts (fst (Send demoEnv (demoClient 0) (Some (demoMessage [''A''])) [])) = [] \<and>
   snd (Send demoEnv (demoClient 0) (Some (demoMessage [''A''])) ''revoked'')
     = Return None (Some (TokenError ''invalid_grant'')) \<and>
   posts (fst (Send demoEnv (demoClient 0) (Some (demoMessage [''A''])) ''revoked'')) = []"
proof -
  have v: "validate (Some (demoMessage [''A''])) = None" by code_simp
  have 1: "snd (snd (getAcsessToken demoEnv [])) =
      Some (CredentialsError ''unexpected end of JSON input'')"
    by code_simp
  have 2: "snd (snd (getAcsessToken demoEnv ''revoked'')) = Some (TokenError ''invalid_grant'')"
    by code_simp
  note a = Send_auth_failure_no_post [OF v 1, of "demoClient 0"]
  note b = Send_auth_failure_no_post [OF v 2, of "demoClient 0"]
  from a [THEN conjunct1] a [THEN conjunct2, THEN conjunct1]
    b [THEN conjunct1] b [THEN conjunct2, THEN conjunct1]
  show ?thesis by (intro conjI)
qed

lemma scenario_encoding:
  assumes "LenData E d = 0"
  shows "Encode E \<lparr>MessageW = messageV1 (scenarioMessage d) ''tok1''\<rparr> = Inr scenarioBody"
proof -
  have "Encode E \<lparr>MessageW = messageV1 (scenarioMessage d) ''tok1''\<rparr> =
      Inr (jsonObject [jsonMember ''message'' (jsonObject
        [jsonMember ''token'' (jsonString ''tok1''),
         jsonMember ''notification''
           (encodeNotificationV1 \<lparr>TitleV1 = ''Hi'', BodyV1 = ''there''\<rparr>),
         jsonMember ''android''
           (encodeAndroid \<lparr>NotificationA = \<lparr>ClickActionA = [], TagA = []\<rparr>,
              PriorityA = ''high''\<rparr>)])] @ [CHR 0x0A])"
    using assms
    by (simp add: Encode_def encodeMessageV1_def messageV1_def scenarioMessage_def)
  also have "jsonObject [jsonMember ''message'' (jsonObject
        [jsonMember ''token'' (jsonString ''tok1''),
         jsonMember ''notification''
           (encodeNotificationV1 \<lparr>TitleV1 = ''Hi'', BodyV1 = ''there''\<rparr>),
         jsonMember ''android''
           (encodeAndroid \<lparr>NotificationA = \<lparr>ClickActionA = [], TagA = []\<rparr>,
              PriorityA = ''high''\<rparr>)])] @ [CHR 0x0A] = scenarioBody"
    by code_simp
  finally show ?thesis .
qed

text \<open>
  C2, amended: for the message with the one target \<^verbatim>\<open>tok1\<close>, title \<^verbatim>\<open>Hi\<close>, body
  \<^verbatim>\<open>there\<close>, priority \<^verbatim>\<open>high\<close> and no payload, the one request posted has the body
  \<open>scenarioBody\<close>: the members tagged \<^verbatim>\<open>omitempty\<close> are left out, but the android
  notification carries \<^verbatim>\<open>click_action\<close> and \<^verbatim>\<open>tag\<close> as empty strings, and a newline ends
  the body. When that request is answered with status 200 and a body that decodes to \<open>r\<close>,
  \<^verbatim>\<open>Send\<close> returns \<open>r\<close> with a nil error.
\<close>

theorem Send_scenario:
  assumes "LenData E d = 0"
    and "CredentialsFromJSON E a messagingScope = Inr cr" and "TokenOf E cr = Inr tk"
    and "ParseURL E (URL c) = None"
    and "Http c [TokenFetch cr] (newRequest c tk scenarioBody) = Inr resp"
    and "StatusCode resp = 200" and "DecodeResponse E (RespBody resp) = Inr r"
  shows "Send E c (Some (scenarioMessage d)) a =
           ([TokenFetch cr, Post (newRequest c tk scenarioBody)], Return (Some r) None)"
proof -
  have v: "validate (Some (scenarioMessage d)) = None"
    by (simp add: validate_def scenarioMessage_def maxRegistrationIDs_def maxTimeToLive_def
        fcmPushPriorityHigh_def)
  have g: "getAcsessToken E a = ([TokenFetch cr], Some tk, None)"
    using assms(2,3) by (simp add: getAcsessToken_def)
  have ids: "RegistrationIDs (scenarioMessage d) = Some [''tok1'']"
    by (simp add: scenarioMessage_def)
  have l: "send_loop E c (scenarioMessage d) (Some tk) [''tok1''] [] [] [TokenFetch cr] =
      ([TokenFetch cr, Post (newRequest c tk scenarioBody)], Inr [r])"
    using scenario_encoding [OF assms(1)] assms(4,5,6,7)
    by (simp add: StatusOK_def)
  show ?thesis
    by (simp add: Send_def v send_def g ids l del: send_loop.simps)
qed


theorem Send_scenario_witness:
  \<open>Send demoEnv (demoClient 0) (Some (scenarioMessage [])) ''creds'' =
     ([TokenFetch ''creds'', Post (newRequest (demoClient 0) ''ya29.creds'' scenarioBody)],
      Return (Some ''{"name":"projects/x/messages/1"}'') None)\<close>
proof -
  have 1: "LenData demoEnv [] = 0" by code_simp
  have 2: "CredentialsFromJSON demoEnv ''creds'' messagingScope = Inr ''creds''" by code_simp
  have 3: "TokenOf demoEnv ''creds'' = Inr ''ya29.creds''" by code_simp
  have 4: "ParseURL demoEnv (URL (demoClient 0)) = None" by code_simp
  have 5: \<open>Http (demoClient 0) [TokenFetch ''creds'']
      (newRequest (demoClient 0) ''ya29.creds'' scenarioBody) =
      Inr \<lparr>StatusCode = 200, Status = ''200 OK'',
           RespBody = ''{"name":"projects/x/messages/1"}''\<rparr>\<close>
    by code_simp
  have 6: \<open>StatusCode \<lparr>StatusCode = 200, Status = ''200 OK'',
           RespBody = ''{"name":"projects/x/messages/1"}''\<rparr> = 200\<close>
    by simp
  have 7: \<open>DecodeResponse demoEnv (RespBody \<lparr>StatusCode = 200, Status = ''200 OK'',
           RespBody = ''{"name":"projects/x/messages/1"}''\<rparr>) =
         Inr ''{"name":"projects/x/messages/1"}''\<close>
    by code_simp
  from Send_scenario [OF 1 2 3 4 5 6 7] show ?thesis .
qed

text \<open>
  C2 as stated fails: the body posted for the scenario message is not the claimed one, with or
  without the final newline.
\<close>

theorem Send_scenario_body_counterexample:
  "map ReqBody (posts (fst (Send demoEnv (demoClient 0) (Some (scenarioMessage [])) ''creds'')))
     \<noteq> [claimedBody] \<and>
   map ReqBody (posts (fst (Send demoEnv (demoClient 0) (Some (scenarioMessage [])) ''creds'')))
     \<noteq> [claimedBody @ [CHR 0x0A]]"
  by code_simp

text \<open>
  C1: on a message with the two targets \<^verbatim>\<open>A\<close> and \<^verbatim>\<open>B\<close>, both delivered, the loop
  collects the two decoded responses, and \<^verbatim>\<open>Send\<close> returns the first of them only.
\<close>

theorem Send_two_targets_returns_first:
  "Send demoEnv (demoClient 0) (Some (demoMessage [''A'', ''B''])) ''creds'' =
     ([TokenFetch ''creds'',
       Post (newRequest (demoClient 0) ''ya29.creds'' (demoBody ''A'')),
       Post (newRequest (demoClient 0) ''ya29.creds'' (demoBody ''B''))],
      Return (Some (nameBody ''1'')) None) \<and>
   snd (send_loop demoEnv (demoClient 0) (demoMessage [''A'', ''B'']) (Some ''ya29.creds'')
          [''A'', ''B''] [] [] [TokenFetch ''creds'']) =
     Inr [nameBody ''1'', nameBody ''2'']"
  by code_simp


theorem Send_aborts_on_bad_status_witness:
  "length (fst (Send demoEnv (demoClient 2) (Some (demoMessage [''A'', ''B'', ''C''])) ''creds'')) = 3
   \<and> snd (Send demoEnv (demoClient 2) (Some (demoMessage [''A'', ''B'', ''C''])) ''creds'') =
       Return None (Some (InvalidStatusCode 500 ''500 Internal Server Error''))"
proof -
  let ?S = "Send demoEnv (demoClient 2) (Some (demoMessage [''A'', ''B'', ''C''])) ''creds''"
  let ?resp = "\<lparr>StatusCode = 500, Status = ''500 Internal Server Error'', RespBody = []\<rparr>"
  let ?rq = "newRequest (demoClient 2) ''ya29.creds'' (demoBody ''B'')"
  have 1: "?S = (fst ?S, snd ?S)" by simp
  have 2: "2 < length (fst ?S)" by code_simp
  have 3: "fst ?S ! 2 = Post ?rq" by code_simp
  have 4: "Http (demoClient 2) (take 2 (fst ?S)) ?rq = Inr ?resp" by code_simp
  have 5: "StatusCode ?resp \<noteq> 200" by simp
  from Send_aborts_on_bad_status [OF 1 2 3 4 5]
  have "Suc 2 = length (fst ?S)"
    and "snd ?S = Return None (Some (InvalidStatusCode (StatusCode ?resp) (Status ?resp)))"
    by blast+
  then show ?thesis by simp
qed


end
